theory Spec2Isabelle
  imports Complex_Main
begin

section \<open>Shared schema\<close>

text \<open>
  The enumerations and object types of the shared schema: finding severities, check
  types, scan and technology statuses, and the canonical severity of a CVE record.
\<close>

datatype Severity = Critical | High | Medium | Low | Info

datatype CheckType =
  Ssl_tls | Security_headers | Vulnerability_scan | Owasp_top_10 | Port_scan | Dns_security

datatype ScanStatus = Pending | Running | Completed | Cancelled | Failed

datatype ScanDepth = Quick | Standard | Deep

datatype TechnologyStatus = Secure | Vulnerable | Unknown | Checking

datatype CveSeverity = CRITICAL | HIGH | MEDIUM | LOW | UNKNOWN

record InsertSecurityFinding =
  scanId :: string
  category :: CheckType
  severity :: Severity
  title :: string
  description :: string
  evidence :: "string option"
  recommendation :: string
  affectedResource :: string
  referenceLinks :: "string list option"
  complianceTags :: "string list option"

record SecurityFinding = InsertSecurityFinding +
  finding_id :: string

record CveRecord =
  cveId :: string
  cve_description :: string
  cve_severity :: CveSeverity
  cvssScore :: "real option"
  publishedDate :: string

section \<open>Scoring function\<close>

text \<open>The table \<open>severityDeductions\<close> of \<open>calculateSecurityScore\<close>.\<close>

fun severityDeductions :: "Severity \<Rightarrow> int" where
  "severityDeductions Critical = 25"
| "severityDeductions High = 15"
| "severityDeductions Medium = 8"
| "severityDeductions Low = 3"
| "severityDeductions Info = 0"

text \<open>
  \<open>calculateSecurityScore\<close>: the early return on no findings, the loop
  adding each finding's deduction to \<open>totalDeduction\<close>, then
  \<open>Math.max(0, Math.min(100, 100 - totalDeduction))\<close>.
\<close>

definition calculateSecurityScore :: "('a InsertSecurityFinding_scheme) list \<Rightarrow> int" where
  "calculateSecurityScore findings =
     (if length findings = 0 then 100
      else
        let totalDeduction =
              fold (\<lambda>finding acc. acc + severityDeductions (severity finding)) findings 0
        in max 0 (min 100 (100 - totalDeduction)))"

section \<open>Technology status rule\<close>

text \<open>\<open>determineSecurityStatus(totalVulnerabilities, criticalCount, highCount)\<close>.\<close>

definition determineSecurityStatus :: "int \<Rightarrow> int \<Rightarrow> int \<Rightarrow> TechnologyStatus" where
  "determineSecurityStatus totalVulnerabilities criticalCount highCount =
     (if criticalCount > 0 \<or> highCount > 5 then Vulnerable
      else if totalVulnerabilities = 0 then Secure
      else if highCount > 0 \<or> totalVulnerabilities > 10 then Vulnerable
      else Secure)"

section \<open>Severity normalizer\<close>

text \<open>
  The raw record of the vulnerability database (\<open>NvdCveItem\<close>): the newer scheme is
  \<open>cvssMetricV31\<close>, the older one \<open>cvssMetricV2\<close>. Optional members are options;
  the \<open>configurations\<close> member is read by no function and is left out.
\<close>

record CvssDataV31 =
  baseScore31 :: real
  baseSeverity31 :: string

record CvssMetricV31 =
  cvssData31 :: CvssDataV31

record CvssDataV2 =
  baseScore2 :: real

record CvssMetricV2 =
  cvssData2 :: CvssDataV2
  baseSeverity2 :: "string option"

record Metrics =
  cvssMetricV31 :: "CvssMetricV31 list option"
  cvssMetricV2 :: "CvssMetricV2 list option"

record LangString =
  lang :: string
  lang_value :: string

record Cve =
  cve_id :: string
  descriptions :: "LangString list"
  published :: string
  metrics :: "Metrics option"

record NvdCveItem =
  cve :: Cve

text \<open>
  \<open>xs?.[0]\<close>: undefined when the array is missing or empty, else its first element.
\<close>

fun first_elem :: "'a list option \<Rightarrow> 'a option" where
  "first_elem None = None"
| "first_elem (Some []) = None"
| "first_elem (Some (x # xs)) = Some x"

text \<open>\<open>item.cve.metrics?.cvssMetricV31?.[0]\<close> and its older-scheme sibling.\<close>

definition v31_of :: "NvdCveItem \<Rightarrow> CvssMetricV31 option" where
  "v31_of item = first_elem (Option.bind (metrics (cve item)) cvssMetricV31)"

definition v2_of :: "NvdCveItem \<Rightarrow> CvssMetricV2 option" where
  "v2_of item = first_elem (Option.bind (metrics (cve item)) cvssMetricV2)"

text \<open>
  \<open>String.prototype.toUpperCase\<close> on the letters a to z; every other character is
  kept. Severity labels are ASCII text.
\<close>

definition upper_char :: "char \<Rightarrow> char" where
  "upper_char c =
     (case map_of (zip ''abcdefghijklmnopqrstuvwxyz'' ''ABCDEFGHIJKLMNOPQRSTUVWXYZ'') c of
        Some u \<Rightarrow> u
      | None \<Rightarrow> c)"

definition toUpperCase :: "string \<Rightarrow> string" where
  "toUpperCase s = map upper_char s"

text \<open>
  The first block of \<open>getSeverity\<close>: with a newer-scheme entry, its upper-cased label
  is returned when it is one of the four canonical names; otherwise control falls
  through (\<open>None\<close>).
\<close>

definition severity_from_v31 :: "NvdCveItem \<Rightarrow> CveSeverity option" where
  "severity_from_v31 item =
     (case v31_of item of
        None \<Rightarrow> None
      | Some v31 \<Rightarrow>
          let severity = toUpperCase (baseSeverity31 (cvssData31 v31)) in
          if severity = ''CRITICAL'' then Some CRITICAL
          else if severity = ''HIGH'' then Some HIGH
          else if severity = ''MEDIUM'' then Some MEDIUM
          else if severity = ''LOW'' then Some LOW
          else None)"

text \<open>
  The second block: \<open>v2?.baseSeverity\<close> must be truthy (present and not the empty
  string), and its upper-cased label one of the three names of the older scheme.
\<close>

definition severity_from_v2 :: "NvdCveItem \<Rightarrow> CveSeverity option" where
  "severity_from_v2 item =
     (case Option.bind (v2_of item) baseSeverity2 of
        None \<Rightarrow> None
      | Some label \<Rightarrow>
          if label = [] then None
          else
            let severity = toUpperCase label in
            if severity = ''HIGH'' then Some HIGH
            else if severity = ''MEDIUM'' then Some MEDIUM
            else if severity = ''LOW'' then Some LOW
            else None)"

definition getSeverity :: "NvdCveItem \<Rightarrow> CveSeverity" where
  "getSeverity item =
     (case severity_from_v31 item of
        Some s \<Rightarrow> s
      | None \<Rightarrow>
          (case severity_from_v2 item of
             Some s \<Rightarrow> s
           | None \<Rightarrow> UNKNOWN))"

definition getCvssScore :: "NvdCveItem \<Rightarrow> real option" where
  "getCvssScore item =
     (case v31_of item of
        Some v31 \<Rightarrow> Some (baseScore31 (cvssData31 v31))
      | None \<Rightarrow>
          (case v2_of item of
             Some v2 \<Rightarrow> Some (baseScore2 (cvssData2 v2))
           | None \<Rightarrow> None))"

section \<open>Technologies and the external vulnerability database\<close>

text \<open>
  A row of the \<open>technologies\<close> table. \<open>createdAt\<close> is read by no function and is
  left out; timestamps are milliseconds.
\<close>

record Technology =
  tech_id :: string
  name :: string
  vendor :: string
  tech_category :: string
  cpe :: "string option"
  currentVersion :: string
  latestVersion :: "string option"
  secureVersion :: "string option"
  tech_status :: TechnologyStatus
  vulnerabilityCount :: int
  criticalCount :: int
  highCount :: int
  topCves :: "CveRecord list option"
  lastCheckedAt :: "int option"

text \<open>
  \<open>InsertTechnology\<close>: the row without \<open>id\<close> and \<open>lastCheckedAt\<close>; the columns
  with a database default (\<open>status\<close>, the three counts) may be omitted.
\<close>

record InsertTechnology =
  name_i :: string
  vendor_i :: string
  category_i :: string
  cpe_i :: "string option"
  currentVersion_i :: string
  latestVersion_i :: "string option"
  secureVersion_i :: "string option"
  status_i :: "TechnologyStatus option"
  vulnerabilityCount_i :: "int option"
  criticalCount_i :: "int option"
  highCount_i :: "int option"
  topCves_i :: "CveRecord list option"

text \<open>
  \<open>Partial<Technology>\<close> as the tracker passes it to \<open>updateTechnology\<close>: the six
  members it ever sets, each present or absent.
\<close>

record TechnologyUpdates =
  status_u :: "TechnologyStatus option"
  vulnerabilityCount_u :: "int option"
  criticalCount_u :: "int option"
  highCount_u :: "int option"
  topCves_u :: "CveRecord list option"
  lastCheckedAt_u :: "int option"

record NvdResponse =
  totalResults :: int
  vulnerabilities :: "NvdCveItem list"

text \<open>
  What \<open>await rateLimitedFetch(url)\<close> followed by \<open>await response.json()\<close> can
  yield: the request is rejected (transport failure), or a response arrives with a
  status code and a body that parses to an \<open>NvdResponse\<close> or does not (\<open>None\<close>).
\<close>

datatype FetchOutcome = NetworkError | HttpResponse int "NvdResponse option"

record FetchResult =
  cves_r :: "CveRecord list"
  topCves_r :: "CveRecord list"
  totalCount_r :: int
  criticalCount_r :: int
  highCount_r :: int

definition zero_result :: FetchResult where
  "zero_result =
     \<lparr>cves_r = [], topCves_r = [], totalCount_r = 0, criticalCount_r = 0, highCount_r = 0\<rparr>"

text \<open>The mapping of one raw record to a \<open>CveRecord\<close>.\<close>

definition description_of :: "NvdCveItem \<Rightarrow> string" where
  "description_of item =
     (case find (\<lambda>d. lang d = ''en'') (descriptions (cve item)) of
        None \<Rightarrow> ''No description available''
      | Some d \<Rightarrow> if lang_value d = [] then ''No description available'' else lang_value d)"

definition to_cve_record :: "NvdCveItem \<Rightarrow> CveRecord" where
  "to_cve_record item =
     \<lparr>cveId = cve_id (cve item),
      cve_description = description_of item,
      cve_severity = getSeverity item,
      cvssScore = getCvssScore item,
      publishedDate = published (cve item)\<rparr>"

text \<open>
  The comparator of the top-five sort and a stable sort by a comparator (the sort of
  the array is stable, and an element goes before another when the comparator is
  negative).
\<close>

fun severityOrder :: "CveSeverity \<Rightarrow> real" where
  "severityOrder CRITICAL = 0"
| "severityOrder HIGH = 1"
| "severityOrder MEDIUM = 2"
| "severityOrder LOW = 3"
| "severityOrder UNKNOWN = 4"

definition score_or_zero :: "CveRecord \<Rightarrow> real" where
  "score_or_zero c = (case cvssScore c of None \<Rightarrow> 0 | Some s \<Rightarrow> s)"

definition cve_compare :: "CveRecord \<Rightarrow> CveRecord \<Rightarrow> real" where
  "cve_compare a b =
     (let severityDiff = severityOrder (cve_severity a) - severityOrder (cve_severity b) in
      if severityDiff \<noteq> 0 then severityDiff
      else score_or_zero b - score_or_zero a)"

fun insort_cmp :: "('a \<Rightarrow> 'a \<Rightarrow> real) \<Rightarrow> 'a \<Rightarrow> 'a list \<Rightarrow> 'a list" where
  "insort_cmp cmp x [] = [x]"
| "insort_cmp cmp x (y # ys) =
     (if cmp x y \<le> 0 then x # y # ys else y # insort_cmp cmp x ys)"

definition sort_cmp :: "('a \<Rightarrow> 'a \<Rightarrow> real) \<Rightarrow> 'a list \<Rightarrow> 'a list" where
  "sort_cmp cmp xs = foldr (insort_cmp cmp) xs []"

text \<open>The success path of \<open>fetchCvesForTechnology\<close>, from the parsed body.\<close>

definition summarize :: "NvdResponse \<Rightarrow> FetchResult" where
  "summarize data =
     (let cves = map to_cve_record (vulnerabilities data);
          criticalCount = int (length (filter (\<lambda>c. cve_severity c = CRITICAL) cves));
          highCount = int (length (filter (\<lambda>c. cve_severity c = HIGH) cves));
          topCves = take 5 (sort_cmp cve_compare cves)
      in \<lparr>cves_r = cves, topCves_r = topCves, totalCount_r = totalResults data,
          criticalCount_r = criticalCount, highCount_r = highCount\<rparr>)"

text \<open>
  What the code throws and catches: a rejected request, a non-429 error status
  (\<open>NVD API error\<close>), a body that does not parse, a database statement that
  rejects.
\<close>

datatype error = TransportError | NvdApiError int | ParseError | IoError

definition response_ok :: "int \<Rightarrow> bool" where
  "response_ok status = (200 \<le> status \<and> status \<le> 299)"

text \<open>
  The \<open>try\<close> block of \<open>fetchCvesForTechnology\<close>. The parameter \<open>nvd\<close> is the
  outcome of the request built for the technology.
\<close>

definition fetch_try :: "(Technology \<Rightarrow> FetchOutcome) \<Rightarrow> Technology \<Rightarrow> error + FetchResult" where
  "fetch_try nvd tech =
     (case nvd tech of
        NetworkError \<Rightarrow> Inl TransportError
      | HttpResponse status body \<Rightarrow>
          if \<not> response_ok status then
            (if status = 429 then Inr zero_result else Inl (NvdApiError status))
          else
            (case body of
               None \<Rightarrow> Inl ParseError
             | Some data \<Rightarrow> Inr (summarize data)))"

text \<open>
  \<open>fetchCvesForTechnology\<close>: the \<open>catch\<close> around the whole body turns every throw
  into the zero result, so the function never throws.
\<close>

definition fetchCvesForTechnology :: "(Technology \<Rightarrow> FetchOutcome) \<Rightarrow> Technology \<Rightarrow> FetchResult" where
  "fetchCvesForTechnology nvd tech =
     (case fetch_try nvd tech of
        Inl e \<Rightarrow> zero_result
      | Inr r \<Rightarrow> r)"

section \<open>Technology tracker\<close>

text \<open>
  The tracker receives its storage operations as callbacks. A callback takes the
  storage state and returns the new one with what the awaited promise settles to:
  \<open>Inl\<close> when it rejects.
\<close>

type_synonym 'st update_fn =
  "string \<Rightarrow> TechnologyUpdates \<Rightarrow> 'st \<Rightarrow> (error + Technology option) \<times> 'st"

type_synonym 'st get_all_fn = "'st \<Rightarrow> (error + Technology list) \<times> 'st"

definition no_updates :: TechnologyUpdates where
  "no_updates =
     \<lparr>status_u = None, vulnerabilityCount_u = None, criticalCount_u = None,
      highCount_u = None, topCves_u = None, lastCheckedAt_u = None\<rparr>"

definition result_updates :: "FetchResult \<Rightarrow> int \<Rightarrow> TechnologyUpdates" where
  "result_updates r now =
     \<lparr>status_u =
        Some (determineSecurityStatus (totalCount_r r) (criticalCount_r r) (highCount_r r)),
      vulnerabilityCount_u = Some (totalCount_r r),
      criticalCount_u = Some (criticalCount_r r),
      highCount_u = Some (highCount_r r),
      topCves_u = Some (topCves_r r),
      lastCheckedAt_u = Some now\<rparr>"

text \<open>
  \<open>checkSingleTechnology\<close>: mark as checking, fetch, derive the status, write back.
  Nothing is caught: a rejected update propagates to the caller. \<open>clock\<close> gives the
  \<open>new Date()\<close> of the write-back.
\<close>

definition checkSingleTechnology ::
  "(Technology \<Rightarrow> FetchOutcome) \<Rightarrow> (Technology \<Rightarrow> int) \<Rightarrow> Technology \<Rightarrow> 'st update_fn \<Rightarrow> 'st
     \<Rightarrow> (error + Technology option) \<times> 'st" where
  "checkSingleTechnology nvd clock tech updateTechnology st =
     (case updateTechnology (tech_id tech) (no_updates\<lparr>status_u := Some Checking\<rparr>) st of
        (Inl e, st1) \<Rightarrow> (Inl e, st1)
      | (Inr marked, st1) \<Rightarrow>
          updateTechnology (tech_id tech)
            (result_updates (fetchCvesForTechnology nvd tech) (clock tech)) st1)"

text \<open>
  The loop of \<open>checkAllTechnologies\<close>. Its \<open>try\<close> block repeats the statements of
  \<open>checkSingleTechnology\<close>; the \<open>catch\<close> sets the status to unknown, and a rejection
  of that update leaves the loop and the function.
\<close>

fun check_loop ::
  "(Technology \<Rightarrow> FetchOutcome) \<Rightarrow> (Technology \<Rightarrow> int) \<Rightarrow> 'st update_fn \<Rightarrow> Technology list \<Rightarrow> 'st
     \<Rightarrow> (error + unit) \<times> 'st" where
  "check_loop nvd clock updateTechnology [] st = (Inr (), st)"
| "check_loop nvd clock updateTechnology (tech # rest) st =
     (case checkSingleTechnology nvd clock tech updateTechnology st of
        (Inr updated, st1) \<Rightarrow> check_loop nvd clock updateTechnology rest st1
      | (Inl e, st1) \<Rightarrow>
          (case updateTechnology (tech_id tech) (no_updates\<lparr>status_u := Some Unknown\<rparr>) st1 of
             (Inl e2, st2) \<Rightarrow> (Inl e2, st2)
           | (Inr reverted, st2) \<Rightarrow> check_loop nvd clock updateTechnology rest st2))"

definition checkAllTechnologies ::
  "(Technology \<Rightarrow> FetchOutcome) \<Rightarrow> (Technology \<Rightarrow> int) \<Rightarrow> 'st get_all_fn \<Rightarrow> 'st update_fn \<Rightarrow> 'st
     \<Rightarrow> (error + unit) \<times> 'st" where
  "checkAllTechnologies nvd clock getAllTechnologies updateTechnology st =
     (case getAllTechnologies st of
        (Inl e, st0) \<Rightarrow> (Inl e, st0)
      | (Inr technologies, st0) \<Rightarrow> check_loop nvd clock updateTechnology technologies st0)"

section \<open>Database storage of technologies\<close>

text \<open>
  The \<open>technologies\<close> table with the environment of the connection: \<open>faults\<close> says,
  for each coming statement in turn, whether it rejects (an I/O error); past its end
  every statement succeeds.
\<close>

record Db =
  rows :: "Technology list"
  faults :: "bool list"

definition db_statement :: "Db \<Rightarrow> bool \<times> Db" where
  "db_statement d =
     (case faults d of
        [] \<Rightarrow> (False, d)
      | f # fs \<Rightarrow> (f, d\<lparr>faults := fs\<rparr>))"

definition apply_updates :: "TechnologyUpdates \<Rightarrow> Technology \<Rightarrow> Technology" where
  "apply_updates u t =
     t\<lparr>tech_status := (case status_u u of None \<Rightarrow> tech_status t | Some v \<Rightarrow> v),
       vulnerabilityCount :=
         (case vulnerabilityCount_u u of None \<Rightarrow> vulnerabilityCount t | Some v \<Rightarrow> v),
       criticalCount := (case criticalCount_u u of None \<Rightarrow> criticalCount t | Some v \<Rightarrow> v),
       highCount := (case highCount_u u of None \<Rightarrow> highCount t | Some v \<Rightarrow> v),
       topCves := (case topCves_u u of None \<Rightarrow> topCves t | Some v \<Rightarrow> Some v),
       lastCheckedAt := (case lastCheckedAt_u u of None \<Rightarrow> lastCheckedAt t | Some v \<Rightarrow> Some v)\<rparr>"

text \<open>The methods of \<open>DatabaseStorage\<close> on technologies.\<close>

definition getAllTechnologies :: "Db \<Rightarrow> (error + Technology list) \<times> Db" where
  "getAllTechnologies d =
     (case db_statement d of
        (True, d1) \<Rightarrow> (Inl IoError, d1)
      | (False, d1) \<Rightarrow> (Inr (rows d1), d1))"

definition getTechnology :: "string \<Rightarrow> Db \<Rightarrow> (error + Technology option) \<times> Db" where
  "getTechnology i d =
     (case db_statement d of
        (True, d1) \<Rightarrow> (Inl IoError, d1)
      | (False, d1) \<Rightarrow> (Inr (find (\<lambda>t. tech_id t = i) (rows d1)), d1))"

definition new_row :: "string \<Rightarrow> InsertTechnology \<Rightarrow> Technology" where
  "new_row i tech =
     \<lparr>tech_id = i, name = name_i tech, vendor = vendor_i tech,
      tech_category = category_i tech, cpe = cpe_i tech,
      currentVersion = currentVersion_i tech, latestVersion = latestVersion_i tech,
      secureVersion = secureVersion_i tech,
      tech_status = (case status_i tech of None \<Rightarrow> Unknown | Some v \<Rightarrow> v),
      vulnerabilityCount = (case vulnerabilityCount_i tech of None \<Rightarrow> 0 | Some v \<Rightarrow> v),
      criticalCount = (case criticalCount_i tech of None \<Rightarrow> 0 | Some v \<Rightarrow> v),
      highCount = (case highCount_i tech of None \<Rightarrow> 0 | Some v \<Rightarrow> v),
      topCves = topCves_i tech, lastCheckedAt = None\<rparr>"

text \<open>\<open>createTechnology\<close>; \<open>i\<close> is the identifier the database generates.\<close>

definition createTechnology :: "string \<Rightarrow> InsertTechnology \<Rightarrow> Db \<Rightarrow> (error + Technology) \<times> Db" where
  "createTechnology i tech d =
     (case db_statement d of
        (True, d1) \<Rightarrow> (Inl IoError, d1)
      | (False, d1) \<Rightarrow> (Inr (new_row i tech), d1\<lparr>rows := rows d1 @ [new_row i tech]\<rparr>))"

definition updateTechnology :: "Db update_fn" where
  "updateTechnology i updates d =
     (case db_statement d of
        (True, d1) \<Rightarrow> (Inl IoError, d1)
      | (False, d1) \<Rightarrow>
          let rows' = map (\<lambda>t. if tech_id t = i then apply_updates updates t else t) (rows d1)
          in (Inr (find (\<lambda>t. tech_id t = i) rows'), d1\<lparr>rows := rows'\<rparr>))"

definition deleteTechnology :: "string \<Rightarrow> Db \<Rightarrow> (error + bool) \<times> Db" where
  "deleteTechnology i d =
     (case db_statement d of
        (True, d1) \<Rightarrow> (Inl IoError, d1)
      | (False, d1) \<Rightarrow> (Inr True, d1\<lparr>rows := filter (\<lambda>t. tech_id t \<noteq> i) (rows d1)\<rparr>))"

text \<open>
  The seed list. Every entry of \<open>defaultTechnologies\<close> has the same shape: status
  unknown and the three counts zero.
\<close>

definition seed_entry :: "string \<Rightarrow> string \<Rightarrow> string \<Rightarrow> string \<Rightarrow> string \<Rightarrow> InsertTechnology" where
  "seed_entry n v c p ver =
     \<lparr>name_i = n, vendor_i = v, category_i = c, cpe_i = Some p, currentVersion_i = ver,
      latestVersion_i = None, secureVersion_i = None, status_i = Some Unknown,
      vulnerabilityCount_i = Some 0, criticalCount_i = Some 0, highCount_i = Some 0,
      topCves_i = None\<rparr>"

definition defaultTechnologies :: "InsertTechnology list" where
  "defaultTechnologies =
     [seed_entry ''Node.js'' ''nodejs'' ''Runtime'' ''cpe:2.3:a:nodejs:node.js'' ''20.10.0'',
      seed_entry ''React'' ''facebook'' ''Frontend'' ''cpe:2.3:a:facebook:react'' ''18.2.0'',
      seed_entry ''Express'' ''expressjs'' ''Backend'' ''cpe:2.3:a:expressjs:express'' ''4.18.2'',
      seed_entry ''Python'' ''python'' ''Language'' ''cpe:2.3:a:python:python'' ''3.12.0'',
      seed_entry ''Django'' ''djangoproject'' ''Backend'' ''cpe:2.3:a:djangoproject:django'' ''5.0'',
      seed_entry ''PostgreSQL'' ''postgresql'' ''Database'' ''cpe:2.3:a:postgresql:postgresql'' ''16.1'',
      seed_entry ''MySQL'' ''oracle'' ''Database'' ''cpe:2.3:a:oracle:mysql'' ''8.2.0'',
      seed_entry ''MongoDB'' ''mongodb'' ''Database'' ''cpe:2.3:a:mongodb:mongodb'' ''7.0.4'',
      seed_entry ''Nginx'' ''nginx'' ''Server'' ''cpe:2.3:a:nginx:nginx'' ''1.25.3'',
      seed_entry ''Apache HTTP Server'' ''apache'' ''Server'' ''cpe:2.3:a:apache:http_server'' ''2.4.58'',
      seed_entry ''PHP'' ''php'' ''Language'' ''cpe:2.3:a:php:php'' ''8.3.0'',
      seed_entry ''Laravel'' ''laravel'' ''Backend'' ''cpe:2.3:a:laravel:laravel'' ''10.35.0'',
      seed_entry ''Vue.js'' ''vuejs'' ''Frontend'' ''cpe:2.3:a:vuejs:vue'' ''3.4.0'',
      seed_entry ''Angular'' ''google'' ''Frontend'' ''cpe:2.3:a:google:angular'' ''17.0.0'',
      seed_entry ''Redis'' ''redis'' ''Database'' ''cpe:2.3:a:redis:redis'' ''7.2.3'',
      seed_entry ''Docker'' ''docker'' ''DevOps'' ''cpe:2.3:a:docker:docker'' ''24.0.7'',
      seed_entry ''Kubernetes'' ''kubernetes'' ''DevOps'' ''cpe:2.3:a:kubernetes:kubernetes'' ''1.29.0'',
      seed_entry ''WordPress'' ''wordpress'' ''CMS'' ''cpe:2.3:a:wordpress:wordpress'' ''6.4.2'',
      seed_entry ''Spring Boot'' ''vmware'' ''Backend'' ''cpe:2.3:a:vmware:spring_boot'' ''3.2.0'',
      seed_entry ''Ruby on Rails'' ''rubyonrails'' ''Backend'' ''cpe:2.3:a:rubyonrails:rails'' ''7.1.2'']"

text \<open>
  \<open>seedTechnologies\<close>: when the table is empty, each default entry is created in
  turn; \<open>gen k\<close> is the identifier the database generates for the k-th of them.
\<close>

fun create_each :: "(nat \<Rightarrow> string) \<Rightarrow> nat \<Rightarrow> InsertTechnology list \<Rightarrow> Db \<Rightarrow> (error + unit) \<times> Db" where
  "create_each gen k [] d = (Inr (), d)"
| "create_each gen k (tech # rest) d =
     (case createTechnology (gen k) tech d of
        (Inl e, d1) \<Rightarrow> (Inl e, d1)
      | (Inr created, d1) \<Rightarrow> create_each gen (Suc k) rest d1)"

definition seedTechnologies :: "(nat \<Rightarrow> string) \<Rightarrow> Db \<Rightarrow> (error + unit) \<times> Db" where
  "seedTechnologies gen d =
     (case getAllTechnologies d of
        (Inl e, d1) \<Rightarrow> (Inl e, d1)
      | (Inr existing, d1) \<Rightarrow>
          if length existing = 0 then create_each gen 0 defaultTechnologies d1
          else (Inr (), d1))"

section \<open>Technology routes\<close>

text \<open>
  What a route handler sends: a JSON payload with status 200 or with status 201, or a
  status code with an error message.
\<close>

datatype 'a Response = Ok_json 'a | Created_json 'a | Error_json int string

text \<open>
  \<open>DELETE /api/technologies/:id\<close>; the payload \<open>{ success: true }\<close> is
  \<open>Ok_json True\<close>.
\<close>

definition delete_technology_route :: "string \<Rightarrow> Db \<Rightarrow> bool Response \<times> Db" where
  "delete_technology_route i d =
     (case deleteTechnology i d of
        (Inl e, d1) \<Rightarrow> (Error_json 500 ''Failed to delete technology'', d1)
      | (Inr deleted, d1) \<Rightarrow> (Ok_json True, d1))"

text \<open>\<open>POST /api/technologies/:id/check\<close>.\<close>

definition check_technology_route ::
  "(Technology \<Rightarrow> FetchOutcome) \<Rightarrow> (Technology \<Rightarrow> int) \<Rightarrow> string \<Rightarrow> Db
     \<Rightarrow> Technology option Response \<times> Db" where
  "check_technology_route nvd clock i d =
     (case getTechnology i d of
        (Inl e, d1) \<Rightarrow> (Error_json 500 ''Failed to check technology'', d1)
      | (Inr None, d1) \<Rightarrow> (Error_json 404 ''Technology not found'', d1)
      | (Inr (Some tech), d1) \<Rightarrow>
          (case checkSingleTechnology nvd clock tech updateTechnology d1 of
             (Inl e, d2) \<Rightarrow> (Error_json 500 ''Failed to check technology'', d2)
           | (Inr updated, d2) \<Rightarrow> (Ok_json updated, d2)))"

text \<open>
  The bulk check as the route and the weekly scheduler start it: with the storage
  methods as callbacks.
\<close>

definition check_all_job ::
  "(Technology \<Rightarrow> FetchOutcome) \<Rightarrow> (Technology \<Rightarrow> int) \<Rightarrow> Db \<Rightarrow> (error + unit) \<times> Db" where
  "check_all_job nvd clock d =
     checkAllTechnologies nvd clock getAllTechnologies updateTechnology d"

section \<open>Scan storage\<close>

record ScanConfig =
  checkTypes :: "CheckType list"
  scanDepth :: ScanDepth
  scan_notes :: "string option"

record InsertSecurityScan =
  target_i :: string
  configuration_i :: ScanConfig
  consultantName_i :: "string option"
  clientName_i :: "string option"
  projectName_i :: "string option"

record SecurityScan =
  scan_id :: string
  target :: string
  scan_status :: ScanStatus
  configuration :: ScanConfig
  initiatedAt :: string
  completedAt :: "string option"
  overallScore :: "int option"
  consultantName :: "string option"
  clientName :: "string option"
  projectName :: "string option"

text \<open>
  \<open>Partial<SecurityScan>\<close> as the routes pass it to \<open>updateScan\<close>: the three members
  they ever set.
\<close>

record ScanUpdates =
  status_s :: "ScanStatus option"
  completedAt_s :: "string option"
  overallScore_s :: "int option"

definition no_scan_updates :: ScanUpdates where
  "no_scan_updates = \<lparr>status_s = None, completedAt_s = None, overallScore_s = None\<rparr>"

text \<open>
  The two maps of the storage class that keeps scans in memory: scans by id, findings
  by scan id. The storage class that keeps them in the database sets the same members
  in \<open>updateScan\<close> (status, score, completion time) on the row with the id.
\<close>

record ScanStore =
  scans :: "string \<rightharpoonup> SecurityScan"
  findings :: "string \<rightharpoonup> SecurityFinding list"

text \<open>
  \<open>createScan\<close>; \<open>i\<close> is the value of \<open>randomUUID()\<close> and \<open>now\<close> the time stamp
  of the call.
\<close>

definition createScan :: "InsertSecurityScan \<Rightarrow> string \<Rightarrow> string \<Rightarrow> ScanStore \<Rightarrow> SecurityScan \<times> ScanStore" where
  "createScan insertScan i now st =
     (let scan =
            \<lparr>scan_id = i, target = target_i insertScan, scan_status = Pending,
             configuration = configuration_i insertScan, initiatedAt = now,
             completedAt = None, overallScore = None,
             consultantName = consultantName_i insertScan,
             clientName = clientName_i insertScan,
             projectName = projectName_i insertScan\<rparr>
      in (scan, st\<lparr>scans := (scans st)(i \<mapsto> scan), findings := (findings st)(i \<mapsto> [])\<rparr>))"

definition getScan :: "string \<Rightarrow> ScanStore \<Rightarrow> SecurityScan option" where
  "getScan i st = scans st i"

text \<open>The spread \<open>{ ...scan, ...updates }\<close>: a member of the updates wins.\<close>

definition merge_scan :: "SecurityScan \<Rightarrow> ScanUpdates \<Rightarrow> SecurityScan" where
  "merge_scan scan updates =
     scan\<lparr>scan_status := (case status_s updates of None \<Rightarrow> scan_status scan | Some v \<Rightarrow> v),
          completedAt := (case completedAt_s updates of None \<Rightarrow> completedAt scan | Some v \<Rightarrow> Some v),
          overallScore :=
            (case overallScore_s updates of None \<Rightarrow> overallScore scan | Some v \<Rightarrow> Some v)\<rparr>"

definition updateScan :: "string \<Rightarrow> ScanUpdates \<Rightarrow> ScanStore \<Rightarrow> SecurityScan option \<times> ScanStore" where
  "updateScan i updates st =
     (case scans st i of
        None \<Rightarrow> (None, st)
      | Some scan \<Rightarrow>
          let updatedScan = merge_scan scan updates
          in (Some updatedScan, st\<lparr>scans := (scans st)(i \<mapsto> updatedScan)\<rparr>))"

text \<open>\<open>createFinding\<close>; \<open>i\<close> is the value of \<open>randomUUID()\<close>.\<close>

definition createFinding :: "InsertSecurityFinding \<Rightarrow> string \<Rightarrow> ScanStore \<Rightarrow> SecurityFinding \<times> ScanStore" where
  "createFinding finding i st =
     (let newFinding = InsertSecurityFinding.extend finding (SecurityFinding.fields i);
          scanFindings =
            (case findings st (scanId finding) of None \<Rightarrow> [] | Some fs \<Rightarrow> fs) @ [newFinding]
      in (newFinding, st\<lparr>findings := (findings st)(scanId finding \<mapsto> scanFindings)\<rparr>))"

definition getFindings :: "string \<Rightarrow> ScanStore \<Rightarrow> SecurityFinding list" where
  "getFindings i st = (case findings st i of None \<Rightarrow> [] | Some fs \<Rightarrow> fs)"

section \<open>Scan lifecycle routes\<close>

text \<open>
  The server state of the scan routes: the storage and the completion callbacks that
  \<open>setTimeout\<close> has scheduled and that have not fired yet, each with the scan object
  it captured.
\<close>

record Server =
  store :: ScanStore
  timers :: "SecurityScan list"

text \<open>
  \<open>POST /api/scans\<close> after the request body has passed validation: create the scan,
  set it running, schedule the completion, answer with the scan as created.
\<close>

definition create_scan_route :: "InsertSecurityScan \<Rightarrow> string \<Rightarrow> string \<Rightarrow> Server \<Rightarrow> SecurityScan Response \<times> Server" where
  "create_scan_route body i now srv =
     (let (scan, st1) = createScan body i now (store srv);
          (started, st2) = updateScan (scan_id scan) (no_scan_updates\<lparr>status_s := Some Running\<rparr>) st1
      in (Created_json scan, srv\<lparr>store := st2, timers := timers srv @ [scan]\<rparr>))"

text \<open>The loop storing the generated findings; \<open>fid k\<close> is the id drawn for the k-th.\<close>

fun store_findings :: "(nat \<Rightarrow> string) \<Rightarrow> nat \<Rightarrow> InsertSecurityFinding list \<Rightarrow> ScanStore \<Rightarrow> ScanStore" where
  "store_findings fid k [] st = st"
| "store_findings fid k (finding # rest) st =
     store_findings fid (Suc k) rest (snd (createFinding finding (fid k) st))"

text \<open>
  The completion callback of a scan. \<open>generated\<close> is what the call of
  \<open>generateFindings\<close> yields (its sampling is random): the findings, or \<open>Inl\<close> when
  it throws. The callback reads no status before it writes.
\<close>

definition completion :: "SecurityScan \<Rightarrow> error + InsertSecurityFinding list \<Rightarrow> (nat \<Rightarrow> string) \<Rightarrow> string \<Rightarrow> ScanStore \<Rightarrow> ScanStore" where
  "completion scan generated fid now st =
     (case generated of
        Inl e \<Rightarrow> snd (updateScan (scan_id scan) (no_scan_updates\<lparr>status_s := Some Failed\<rparr>) st)
      | Inr findingsData \<Rightarrow>
          let st1 = store_findings fid 0 findingsData st;
              score = calculateSecurityScore findingsData
          in snd (updateScan (scan_id scan)
                    \<lparr>status_s = Some Completed, completedAt_s = Some now,
                     overallScore_s = Some score\<rparr> st1))"

text \<open>The timer of scan \<open>i\<close> fires: its callback runs and leaves the pending ones.\<close>

definition timer_fires :: "string \<Rightarrow> error + InsertSecurityFinding list \<Rightarrow> (nat \<Rightarrow> string) \<Rightarrow> string \<Rightarrow> Server \<Rightarrow> Server" where
  "timer_fires i generated fid now srv =
     (case find (\<lambda>scan. scan_id scan = i) (timers srv) of
        None \<Rightarrow> srv
      | Some scan \<Rightarrow>
          srv\<lparr>store := completion scan generated fid now (store srv),
              timers := filter (\<lambda>scan. scan_id scan \<noteq> i) (timers srv)\<rparr>)"

text \<open>\<open>PATCH /api/scans/:id/cancel\<close>.\<close>

definition cancel_scan_route :: "string \<Rightarrow> string \<Rightarrow> Server \<Rightarrow> SecurityScan option Response \<times> Server" where
  "cancel_scan_route i now srv =
     (case getScan i (store srv) of
        None \<Rightarrow> (Error_json 404 ''Scan not found'', srv)
      | Some scan \<Rightarrow>
          if scan_status scan \<noteq> Running \<and> scan_status scan \<noteq> Pending
          then (Error_json 400 ''Scan cannot be cancelled'', srv)
          else
            let (updatedScan, st1) =
                  updateScan i \<lparr>status_s = Some Cancelled, completedAt_s = Some now,
                                overallScore_s = None\<rparr> (store srv)
            in (Ok_json updatedScan, srv\<lparr>store := st1\<rparr>))"

text \<open>\<open>GET /api/scans/:id\<close>.\<close>

definition get_scan_route :: "string \<Rightarrow> Server \<Rightarrow> SecurityScan Response" where
  "get_scan_route i srv =
     (case getScan i (store srv) of
        None \<Rightarrow> Error_json 404 ''Scan not found''
      | Some scan \<Rightarrow> Ok_json scan)"

section \<open>Rate-limited client\<close>

definition RATE_LIMIT_DELAY :: int where
  "RATE_LIMIT_DELAY = 6500"

text \<open>
  \<open>rateLimitedFetch\<close> runs in two pieces when it has to wait: up to the \<open>await\<close> of
  the timeout, and from the wake-up on. Other callers run in between. The state is the
  module variable \<open>lastRequestTime\<close>, the callers asleep with the time their timeout
  is due, the requests begun so far (caller and time), and the clock.
\<close>

record Limiter =
  lastRequestTime :: int
  sleeping :: "(nat \<times> int) list"
  requests :: "(nat \<times> int) list"
  clock_ms :: int

definition initial_limiter :: Limiter where
  "initial_limiter = \<lparr>lastRequestTime = 0, sleeping = [], requests = [], clock_ms = 0\<rparr>"

text \<open>\<open>lastRequestTime = Date.now(); return fetch(url)\<close> for caller \<open>c\<close>.\<close>

definition issue :: "nat \<Rightarrow> int \<Rightarrow> Limiter \<Rightarrow> Limiter" where
  "issue c now s = s\<lparr>lastRequestTime := now, requests := requests s @ [(c, now)]\<rparr>"

text \<open>Caller \<open>c\<close> enters \<open>rateLimitedFetch\<close> at time \<open>now\<close>.\<close>

definition enter :: "nat \<Rightarrow> int \<Rightarrow> Limiter \<Rightarrow> Limiter" where
  "enter c now s =
     (let timeSinceLastRequest = now - lastRequestTime s in
      if timeSinceLastRequest < RATE_LIMIT_DELAY
      then s\<lparr>sleeping := sleeping s @ [(c, now + (RATE_LIMIT_DELAY - timeSinceLastRequest))]\<rparr>
      else issue c now s)"

text \<open>
  An event of the event loop: a caller enters, or the timeout of a sleeping caller
  fires. A timeout fires no earlier than it is due, and time does not go back;
  \<open>None\<close> is a sequence of events that cannot happen.
\<close>

datatype Event = Enter nat int | Wake nat int

fun event_time :: "Event \<Rightarrow> int" where
  "event_time (Enter c t) = t"
| "event_time (Wake c t) = t"

definition step :: "Event \<Rightarrow> Limiter \<Rightarrow> Limiter option" where
  "step ev s =
     (if event_time ev < clock_ms s then None
      else
        (case ev of
           Enter c now \<Rightarrow> Some (enter c now (s\<lparr>clock_ms := now\<rparr>))
         | Wake c now \<Rightarrow>
             (case map_of (sleeping s) c of
                None \<Rightarrow> None
              | Some due \<Rightarrow>
                  if now < due then None
                  else Some (issue c now
                               (s\<lparr>clock_ms := now,
                                  sleeping := filter (\<lambda>p. fst p \<noteq> c) (sleeping s)\<rparr>)))))"

fun run :: "Event list \<Rightarrow> Limiter \<Rightarrow> Limiter option" where
  "run [] s = Some s"
| "run (ev # evs) s = (case step ev s of None \<Rightarrow> None | Some s1 \<Rightarrow> run evs s1)"

section \<open>The specification's wording and sample data\<close>

text \<open>
  The two-tier fallback of the severity normalizer as the specification words it, with
  the comparison of labels left open: \<open>canon\<close> is applied to a label before it
  is looked up among the accepted names. The identity compares labels as they are;
  \<open>toUpperCase\<close> compares them without regard to case.
\<close>

definition severity_named :: "string \<Rightarrow> CveSeverity option" where
  "severity_named s =
     (if s = ''CRITICAL'' then Some CRITICAL
      else if s = ''HIGH'' then Some HIGH
      else if s = ''MEDIUM'' then Some MEDIUM
      else if s = ''LOW'' then Some LOW
      else None)"

definition newer_label :: "NvdCveItem \<Rightarrow> string option" where
  "newer_label item = map_option (\<lambda>m. baseSeverity31 (cvssData31 m)) (v31_of item)"

definition older_label :: "NvdCveItem \<Rightarrow> string option" where
  "older_label item = Option.bind (v2_of item) baseSeverity2"

definition accepted :: "(string \<Rightarrow> string) \<Rightarrow> string list \<Rightarrow> string option \<Rightarrow> CveSeverity option" where
  "accepted canon names label =
     (case label of
        None \<Rightarrow> None
      | Some l \<Rightarrow> if canon l \<in> set names then severity_named (canon l) else None)"

definition two_tier_severity :: "(string \<Rightarrow> string) \<Rightarrow> NvdCveItem \<Rightarrow> CveSeverity" where
  "two_tier_severity canon item =
     (case accepted canon [''CRITICAL'', ''HIGH'', ''MEDIUM'', ''LOW''] (newer_label item) of
        Some s \<Rightarrow> s
      | None \<Rightarrow>
          (case accepted canon [''HIGH'', ''MEDIUM'', ''LOW''] (older_label item) of
             Some s \<Rightarrow> s
           | None \<Rightarrow> UNKNOWN))"

definition two_tier_score :: "NvdCveItem \<Rightarrow> real option" where
  "two_tier_score item =
     (case v31_of item of
        Some m \<Rightarrow> Some (baseScore31 (cvssData31 m))
      | None \<Rightarrow> map_option (\<lambda>m. baseScore2 (cvssData2 m)) (v2_of item))"

text \<open>
  A raw record with the given newer-scheme payload (score and label) and older-scheme
  payload (score and optional label), each present or not.
\<close>

definition raw_item :: "(real \<times> string) option \<Rightarrow> (real \<times> string option) option \<Rightarrow> NvdCveItem" where
  "raw_item newer older =
     \<lparr>cve = \<lparr>cve_id = ''CVE-2024-0001'', descriptions = [], published = ''2024-01-01'',
             metrics = Some
               \<lparr>cvssMetricV31 =
                  map_option
                    (\<lambda>(sc, l). [\<lparr>cvssData31 = \<lparr>baseScore31 = sc, baseSeverity31 = l\<rparr>\<rparr>]) newer,
                cvssMetricV2 =
                  map_option
                    (\<lambda>(sc, l). [\<lparr>cvssData2 = \<lparr>baseScore2 = sc\<rparr>, baseSeverity2 = l\<rparr>]) older\<rparr>\<rparr>\<rparr>"

text \<open>
  The invariant on a technology's counts, and the condition on an answer of the
  vulnerability database under which the tracker keeps it: the answer lists no more
  records than the total it reports.
\<close>

definition counts_within_total :: "Technology \<Rightarrow> bool" where
  "counts_within_total t =
     (criticalCount t \<le> vulnerabilityCount t \<and> highCount t \<le> vulnerabilityCount t)"

definition listed_within_total :: "FetchOutcome \<Rightarrow> bool" where
  "listed_within_total outcome =
     (case outcome of
        NetworkError \<Rightarrow> True
      | HttpResponse status body \<Rightarrow>
          (case body of
             None \<Rightarrow> True
           | Some data \<Rightarrow> int (length (vulnerabilities data)) \<le> totalResults data))"

text \<open>An update of the table that keeps the invariant of every row.\<close>

definition keeps_counts :: "TechnologyUpdates \<Rightarrow> bool" where
  "keeps_counts u = (\<forall>t. counts_within_total t \<longrightarrow> counts_within_total (apply_updates u t))"

text \<open>The row a check writes when the fetch has returned the zero result.\<close>

definition settled :: "int \<Rightarrow> Technology \<Rightarrow> Technology" where
  "settled now t =
     t\<lparr>tech_status := Secure, vulnerabilityCount := 0, criticalCount := 0, highCount := 0,
       topCves := Some [], lastCheckedAt := Some now\<rparr>"

text \<open>Sample rows, a sample answer of the vulnerability database, a sample scan.\<close>

definition sample_tech :: "string \<Rightarrow> string \<Rightarrow> Technology" where
  "sample_tech i n =
     \<lparr>tech_id = i, name = n, vendor = ''vendor'', tech_category = ''Runtime'', cpe = None,
      currentVersion = ''1.0.0'', latestVersion = None, secureVersion = None,
      tech_status = Unknown, vulnerabilityCount = 0, criticalCount = 0, highCount = 0,
      topCves = None, lastCheckedAt = None\<rparr>"

definition answer :: "int \<Rightarrow> NvdCveItem list \<Rightarrow> Technology \<Rightarrow> FetchOutcome" where
  "answer n items tech = HttpResponse 200 (Some \<lparr>totalResults = n, vulnerabilities = items\<rparr>)"

definition sample_body :: InsertSecurityScan where
  "sample_body =
     \<lparr>target_i = ''example.com'',
      configuration_i = \<lparr>checkTypes = [Ssl_tls], scanDepth = Quick, scan_notes = None\<rparr>,
      consultantName_i = None, clientName_i = None, projectName_i = None\<rparr>"

definition sample_finding :: InsertSecurityFinding where
  "sample_finding =
     \<lparr>scanId = ''s1'', category = Ssl_tls, severity = High, title = ''TLS 1.0/1.1 Enabled'',
      description = ''deprecated TLS versions'', evidence = None,
      recommendation = ''Disable TLS 1.0 and 1.1'', affectedResource = ''example.com'',
      referenceLinks = None, complianceTags = None\<rparr>"

text \<open>
  A run of the scan routes: a scan is created (and set running), cancelled one second
  later, and its completion timer fires after that with one high finding generated.
\<close>

definition empty_server :: Server where
  "empty_server = \<lparr>store = \<lparr>scans = Map.empty, findings = Map.empty\<rparr>, timers = []\<rparr>"

definition after_create :: Server where
  "after_create = snd (create_scan_route sample_body ''s1'' ''10:00:00'' empty_server)"

definition after_cancel :: Server where
  "after_cancel = snd (cancel_scan_route ''s1'' ''10:00:01'' after_create)"

definition after_timer :: Server where
  "after_timer =
     timer_fires ''s1'' (Inr [sample_finding]) (\<lambda>k. ''f1'') ''10:00:03'' after_cancel"

lemmas tracker_defs =
  check_technology_route_def getTechnology_def checkSingleTechnology_def updateTechnology_def
  db_statement_def apply_updates_def no_updates_def result_updates_def
  fetchCvesForTechnology_def fetch_try_def zero_result_def determineSecurityStatus_def
  check_all_job_def checkAllTechnologies_def getAllTechnologies_def

lemmas summarize_defs =
  summarize_def to_cve_record_def description_of_def getSeverity_def getCvssScore_def
  severity_from_v31_def severity_from_v2_def v31_of_def v2_of_def toUpperCase_def upper_char_def
  sort_cmp_def cve_compare_def score_or_zero_def response_ok_def

lemmas scan_defs =
  after_timer_def after_cancel_def after_create_def empty_server_def sample_body_def
  sample_finding_def create_scan_route_def cancel_scan_route_def timer_fires_def completion_def
  createScan_def updateScan_def getScan_def merge_scan_def createFinding_def no_scan_updates_def
  calculateSecurityScore_def get_scan_route_def getFindings_def

lemmas limiter_defs =
  step_def enter_def issue_def initial_limiter_def RATE_LIMIT_DELAY_def

section \<open>Properties of the scoring function\<close>

lemma fold_deductions:
  "fold (\<lambda>finding acc. acc + severityDeductions (severity finding)) F a
     = a + (\<Sum>f\<leftarrow>F. severityDeductions (severity f))"
  by (induction F arbitrary: a) simp_all

text \<open>
  Claim C5. For every list of findings the score is an integer between 0 and 100; the
  score of the empty list is 100; and the score is 100 minus the sum of the findings'
  deductions, clamped to 0..100, where the deductions are critical 25, high 15,
  medium 8, low 3 and info 0. (For the empty list the sum is 0, so the formula covers
  it as well.)
\<close>

theorem calculateSecurityScore_range_and_formula:
  "0 \<le> calculateSecurityScore F \<and> calculateSecurityScore F \<le> 100
   \<and> calculateSecurityScore [] = 100
   \<and> calculateSecurityScore F
       = max 0 (min 100 (100 - (\<Sum>f\<leftarrow>F. severityDeductions (severity f))))
   \<and> map severityDeductions [Critical, High, Medium, Low, Info] = [25, 15, 8, 3, 0]"
  by (cases F) (simp_all add: calculateSecurityScore_def fold_deductions Let_def)

section \<open>Properties of the technology status rule\<close>

text \<open>
  Claim C7. For all counts the derived status is: vulnerable when the critical count
  is positive or the high count exceeds 5; else secure when the total is 0; else
  vulnerable when the high count is positive or the total exceeds 10; else secure.
  The six concrete cases of the specification follow.
\<close>

theorem determineSecurityStatus_rule:
  "determineSecurityStatus tot crit hi
     = (if crit > 0 \<or> hi > 5 then Vulnerable
        else if tot = 0 then Secure
        else if hi > 0 \<or> tot > 10 then Vulnerable
        else Secure)
   \<and> determineSecurityStatus 1 1 0 = Vulnerable
   \<and> determineSecurityStatus 6 0 6 = Vulnerable
   \<and> determineSecurityStatus 0 0 0 = Secure
   \<and> determineSecurityStatus 1 0 1 = Vulnerable
   \<and> determineSecurityStatus 11 0 0 = Vulnerable
   \<and> determineSecurityStatus 5 0 0 = Secure"
  by (simp add: determineSecurityStatus_def)


section \<open>Properties of the severity normalizer\<close>

lemma severity_from_v31_accepted:
  "severity_from_v31 item
     = accepted toUpperCase [''CRITICAL'', ''HIGH'', ''MEDIUM'', ''LOW''] (newer_label item)"
  by (simp add: severity_from_v31_def accepted_def newer_label_def severity_named_def Let_def
      split: option.splits)

lemma toUpperCase_Nil: "toUpperCase [] = []"
  by (simp add: toUpperCase_def)

lemma severity_from_v2_accepted:
  "severity_from_v2 item = accepted toUpperCase [''HIGH'', ''MEDIUM'', ''LOW''] (older_label item)"
  by (simp add: severity_from_v2_def accepted_def older_label_def severity_named_def Let_def
      toUpperCase_Nil split: option.splits)

text \<open>
  Claim C6, as amended. For every raw record the normalized severity is the newer
  scheme's label, upper-cased, when that scheme is present and the upper-cased label is
  one of CRITICAL, HIGH, MEDIUM, LOW; else the older scheme's label, upper-cased, when
  it is one of HIGH, MEDIUM, LOW; else UNKNOWN. The normalized score is the newer
  scheme's score when that scheme is present, else the older scheme's, else absent. So
  a record carrying both schemes always reports the newer scheme's score, and the newer
  scheme's severity whenever its upper-cased label is one of the four names.
\<close>

theorem normalizer_two_tier:
  "getSeverity item = two_tier_severity toUpperCase item
   \<and> getCvssScore item = two_tier_score item"
  by (simp add: getSeverity_def two_tier_severity_def severity_from_v31_accepted
      severity_from_v2_accepted getCvssScore_def two_tier_score_def split: option.splits)

text \<open>
  Claim C6 as stated fails on two records. A record carrying both schemes, the newer
  one labelled NONE and the older one LOW, reports the older scheme's severity LOW,
  not a value of the newer scheme. A record whose newer label is the lower-case
  \<open>high\<close>, which is not one of the four names as written, is reported HIGH, where
  the fallback on labels compared as they are gives UNKNOWN.
\<close>

theorem normalizer_counterexample:
  "newer_label (raw_item (Some (0, ''NONE'')) (Some (2.1, Some ''LOW''))) = Some ''NONE''
   \<and> older_label (raw_item (Some (0, ''NONE'')) (Some (2.1, Some ''LOW''))) = Some ''LOW''
   \<and> getSeverity (raw_item (Some (0, ''NONE'')) (Some (2.1, Some ''LOW''))) = LOW
   \<and> getSeverity (raw_item (Some (7.5, ''high'')) None) = HIGH
   \<and> two_tier_severity (\<lambda>l. l) (raw_item (Some (7.5, ''high'')) None) = UNKNOWN"
  by (simp add: raw_item_def newer_label_def older_label_def getSeverity_def severity_from_v31_def
      severity_from_v2_def v31_of_def v2_of_def toUpperCase_def upper_char_def
      two_tier_severity_def accepted_def severity_named_def)

section \<open>Properties of the technology storage and tracker\<close>

text \<open>
  Claim C10. For every id and every table, \<open>deleteTechnology\<close> returns true and the
  delete route answers with the success payload whenever the database statement itself
  does not reject; whether a row with the id exists plays no part, and no answer is
  a not-found error. In particular deleting from an empty table reports success.
\<close>

theorem delete_reports_success:
  "fst (deleteTechnology i d) = (if fst (db_statement d) then Inl IoError else Inr True)
   \<and> fst (delete_technology_route i d)
       = (if fst (db_statement d) then Error_json 500 ''Failed to delete technology''
          else Ok_json True)
   \<and> fst (deleteTechnology ''no-such-id'' \<lparr>rows = [], faults = []\<rparr>) = Inr True
   \<and> fst (delete_technology_route ''no-such-id'' \<lparr>rows = [], faults = []\<rparr>) = Ok_json True"
  by (simp add: deleteTechnology_def delete_technology_route_def db_statement_def
      split: prod.splits bool.splits list.splits)

subsection \<open>The counts of a technology\<close>

lemma summarize_counts:
  assumes "int (length (vulnerabilities data)) \<le> totalResults data"
  shows "criticalCount_r (summarize data) \<le> totalCount_r (summarize data)
         \<and> highCount_r (summarize data) \<le> totalCount_r (summarize data)"
proof -
  have "int (length (filter P (vulnerabilities data))) \<le> totalResults data" for P
  proof -
    have "int (length (filter P (vulnerabilities data))) \<le> int (length (vulnerabilities data))"
      by simp
    with assms show ?thesis by linarith
  qed
  then show ?thesis
    by (simp add: summarize_def Let_def)
qed

lemma fetch_counts:
  "listed_within_total (nvd tech) \<Longrightarrow>
   criticalCount_r (fetchCvesForTechnology nvd tech) \<le> totalCount_r (fetchCvesForTechnology nvd tech)
   \<and> highCount_r (fetchCvesForTechnology nvd tech) \<le> totalCount_r (fetchCvesForTechnology nvd tech)"
  using summarize_counts
  by (auto simp: fetchCvesForTechnology_def fetch_try_def listed_within_total_def zero_result_def
      split: FetchOutcome.splits option.splits)

lemma db_statement_rows: "rows (snd (db_statement d)) = rows d"
  by (simp add: db_statement_def split: list.splits)

lemma keeps_counts_status: "keeps_counts (no_updates\<lparr>status_u := Some s\<rparr>)"
  by (simp add: keeps_counts_def counts_within_total_def apply_updates_def no_updates_def)

lemma keeps_counts_result:
  "criticalCount_r r \<le> totalCount_r r \<and> highCount_r r \<le> totalCount_r r \<Longrightarrow>
   keeps_counts (result_updates r now)"
  by (simp add: keeps_counts_def counts_within_total_def apply_updates_def result_updates_def)

lemma updateTechnology_counts:
  assumes "keeps_counts u" and "list_all counts_within_total (rows d)"
  shows "list_all counts_within_total (rows (snd (updateTechnology i u d)))"
proof -
  obtain f d1 where s: "db_statement d = (f, d1)" by (cases "db_statement d")
  then have r: "rows d1 = rows d" using db_statement_rows [of d] by simp
  show ?thesis
    using assms r s
    by (cases f) (auto simp: updateTechnology_def Let_def keeps_counts_def list_all_iff)
qed

lemma checkSingle_counts:
  assumes "listed_within_total (nvd tech)" and "list_all counts_within_total (rows d)"
  shows "list_all counts_within_total
           (rows (snd (checkSingleTechnology nvd clock tech updateTechnology d)))"
proof -
  let ?mark = "no_updates\<lparr>status_u := Some Checking\<rparr>"
  let ?d1 = "snd (updateTechnology (tech_id tech) ?mark d)"
  have ok1: "list_all counts_within_total (rows ?d1)"
    by (rule updateTechnology_counts [OF keeps_counts_status assms(2)])
  have k: "keeps_counts (result_updates (fetchCvesForTechnology nvd tech) (clock tech))"
    using fetch_counts [of nvd tech, OF assms(1)] by (rule keeps_counts_result)
  have ok2: "list_all counts_within_total
               (rows (snd (updateTechnology (tech_id tech)
                  (result_updates (fetchCvesForTechnology nvd tech) (clock tech)) ?d1)))"
    by (rule updateTechnology_counts [OF k ok1])
  show ?thesis
    using ok1 ok2
    by (auto simp: checkSingleTechnology_def case_prod_beta split: sum.splits)
qed

lemma check_loop_counts:
  assumes "\<And>tech. listed_within_total (nvd tech)"
  shows "list_all counts_within_total (rows d) \<Longrightarrow>
         list_all counts_within_total (rows (snd (check_loop nvd clock updateTechnology techs d)))"
proof (induction techs arbitrary: d)
  case Nil
  then show ?case by simp
next
  case (Cons tech rest)
  let ?c = "checkSingleTechnology nvd clock tech updateTechnology d"
  let ?revert = "no_updates\<lparr>status_u := Some Unknown\<rparr>"
  let ?u = "updateTechnology (tech_id tech) ?revert (snd ?c)"
  have ok1: "list_all counts_within_total (rows (snd ?c))"
    by (rule checkSingle_counts [OF assms Cons.prems])
  have ok2: "list_all counts_within_total (rows (snd ?u))"
    by (rule updateTechnology_counts [OF keeps_counts_status ok1])
  show ?case
  proof (cases "fst ?c")
    case (Inr updated)
    then show ?thesis using Cons.IH [OF ok1] by (simp add: case_prod_beta)
  next
    case (Inl e)
    show ?thesis
    proof (cases "fst ?u")
      case (Inl e2)
      then show ?thesis using \<open>fst ?c = Inl e\<close> ok2 by (simp add: case_prod_beta)
    next
      case (Inr reverted)
      then show ?thesis using \<open>fst ?c = Inl e\<close> Cons.IH [OF ok2] by (simp add: case_prod_beta)
    qed
  qed
qed

lemma getAllTechnologies_rows: "rows (snd (getAllTechnologies d)) = rows d"
  using db_statement_rows [of d]
  by (auto simp: getAllTechnologies_def case_prod_beta split: bool.splits)

lemma getTechnology_rows: "rows (snd (getTechnology i d)) = rows d"
  using db_statement_rows [of d]
  by (auto simp: getTechnology_def case_prod_beta split: bool.splits)

lemma check_all_job_counts:
  assumes "\<And>tech. listed_within_total (nvd tech)" and "list_all counts_within_total (rows d)"
  shows "list_all counts_within_total (rows (snd (check_all_job nvd clock d)))"
proof -
  let ?g = "getAllTechnologies d"
  have ok1: "list_all counts_within_total (rows (snd ?g))"
    using assms(2) by (simp add: getAllTechnologies_rows)
  show ?thesis
  proof (cases "fst ?g")
    case (Inl e)
    then show ?thesis using ok1
      by (simp add: check_all_job_def checkAllTechnologies_def case_prod_beta)
  next
    case (Inr ts)
    then show ?thesis using check_loop_counts [OF assms(1) ok1]
      by (simp add: check_all_job_def checkAllTechnologies_def case_prod_beta)
  qed
qed

lemma check_route_counts:
  assumes "\<And>tech. listed_within_total (nvd tech)" and "list_all counts_within_total (rows d)"
  shows "list_all counts_within_total (rows (snd (check_technology_route nvd clock i d)))"
proof -
  let ?g = "getTechnology i d"
  have ok1: "list_all counts_within_total (rows (snd ?g))"
    using assms(2) by (simp add: getTechnology_rows)
  have ok2: "list_all counts_within_total
               (rows (snd (checkSingleTechnology nvd clock tech updateTechnology (snd ?g))))" for tech
    by (rule checkSingle_counts [OF assms(1) ok1])
  show ?thesis
    using ok1 ok2
    by (auto simp: check_technology_route_def case_prod_beta split: sum.splits option.splits)
qed

lemma createTechnology_counts:
  assumes "counts_within_total (new_row i tech)" and "list_all counts_within_total (rows d)"
  shows "list_all counts_within_total (rows (snd (createTechnology i tech d)))"
proof -
  obtain f d1 where s: "db_statement d = (f, d1)" by (cases "db_statement d")
  then have r: "rows d1 = rows d" using db_statement_rows [of d] by simp
  show ?thesis using assms r s by (cases f) (simp_all add: createTechnology_def)
qed

lemma create_each_counts:
  "list_all (\<lambda>tech. \<forall>i. counts_within_total (new_row i tech)) ts \<Longrightarrow>
   list_all counts_within_total (rows d) \<Longrightarrow>
   list_all counts_within_total (rows (snd (create_each gen k ts d)))"
proof (induction ts arbitrary: d k)
  case Nil
  then show ?case by simp
next
  case (Cons tech rest)
  let ?c = "createTechnology (gen k) tech d"
  have "counts_within_total (new_row (gen k) tech)" using Cons.prems(1) by simp
  then have ok1: "list_all counts_within_total (rows (snd ?c))"
    using Cons.prems(2) by (rule createTechnology_counts)
  have rest: "list_all (\<lambda>tech. \<forall>i. counts_within_total (new_row i tech)) rest"
    using Cons.prems(1) by simp
  show ?case
    using ok1 Cons.IH [OF rest ok1]
    by (auto simp: case_prod_beta split: sum.splits)
qed

lemma seed_entry_counts: "counts_within_total (new_row i (seed_entry n v c p ver))"
  by (simp add: counts_within_total_def new_row_def seed_entry_def)

lemma defaults_counts:
  "list_all (\<lambda>tech. \<forall>i. counts_within_total (new_row i tech)) defaultTechnologies"
  by (simp add: defaultTechnologies_def seed_entry_counts)

lemma seed_counts:
  assumes "list_all counts_within_total (rows d)"
  shows "list_all counts_within_total (rows (snd (seedTechnologies gen d)))"
proof -
  let ?g = "getAllTechnologies d"
  have ok1: "list_all counts_within_total (rows (snd ?g))"
    using assms by (simp add: getAllTechnologies_rows)
  show ?thesis
    using ok1 create_each_counts [OF defaults_counts ok1]
    by (auto simp: seedTechnologies_def case_prod_beta split: sum.splits)
qed

text \<open>
  Claim C9, as amended. Provided every answer of the vulnerability database lists no
  more records than the total it reports, and the counts of every row are within its
  total beforehand, then after a single check, after a bulk check and after seeding
  the critical and high counts of every technology are within its total, whatever
  the database statements that reject on the way.
\<close>

theorem counts_never_exceed_total:
  assumes "\<And>tech. listed_within_total (nvd tech)" and "list_all counts_within_total (rows d)"
  shows "list_all counts_within_total (rows (snd (check_technology_route nvd clock i d)))
         \<and> list_all counts_within_total (rows (snd (check_all_job nvd clock d)))
         \<and> list_all counts_within_total (rows (snd (seedTechnologies gen d)))"
  using check_route_counts [OF assms] check_all_job_counts [OF assms] seed_counts [OF assms(2)]
  by simp

text \<open>
  The amended claim at an answer with one critical record and a total of 1: both
  hypotheses hold, and the checked technology ends with total 1 and critical count 1.
\<close>

theorem counts_never_exceed_total_witness:
  "(\<forall>tech. listed_within_total (answer 1 [raw_item (Some (9.8, ''CRITICAL'')) None] tech))
   \<and> list_all counts_within_total (rows \<lparr>rows = [sample_tech ''t1'' ''Node.js''], faults = []\<rparr>)
   \<and> list_all counts_within_total
        (rows (snd (check_technology_route
           (answer 1 [raw_item (Some (9.8, ''CRITICAL'')) None]) (\<lambda>t. 1000) ''t1''
           \<lparr>rows = [sample_tech ''t1'' ''Node.js''], faults = []\<rparr>)))
   \<and> map (\<lambda>t. (vulnerabilityCount t, criticalCount t))
        (rows (snd (check_technology_route
           (answer 1 [raw_item (Some (9.8, ''CRITICAL'')) None]) (\<lambda>t. 1000) ''t1''
           \<lparr>rows = [sample_tech ''t1'' ''Node.js''], faults = []\<rparr>)))
      = [(1, 1)]"
proof -
  have h1: "\<And>tech. listed_within_total (answer 1 [raw_item (Some (9.8, ''CRITICAL'')) None] tech)"
    by (simp add: listed_within_total_def answer_def)
  have h2: "list_all counts_within_total
              (rows \<lparr>rows = [sample_tech ''t1'' ''Node.js''], faults = []\<rparr>)"
    by (simp add: counts_within_total_def sample_tech_def)
  have v: "map (\<lambda>t. (vulnerabilityCount t, criticalCount t))
        (rows (snd (check_technology_route
           (answer 1 [raw_item (Some (9.8, ''CRITICAL'')) None]) (\<lambda>t. 1000) ''t1''
           \<lparr>rows = [sample_tech ''t1'' ''Node.js''], faults = []\<rparr>)))
      = [(1, 1)]"
    by (simp add: tracker_defs summarize_defs answer_def raw_item_def sample_tech_def Let_def)
  show ?thesis
    using h1 h2 v counts_never_exceed_total [OF h1 h2]
    by simp
qed

text \<open>
  Claim C9 as stated fails when the answer reports a total of 0 and lists one critical
  record: the checked technology ends with total 0 and critical count 1.
\<close>

theorem counts_exceed_total_counterexample:
  "map (\<lambda>t. (vulnerabilityCount t, criticalCount t))
     (rows (snd (check_technology_route
        (answer 0 [raw_item (Some (9.8, ''CRITICAL'')) None]) (\<lambda>t. 1000) ''t1''
        \<lparr>rows = [sample_tech ''t1'' ''Node.js''], faults = []\<rparr>)))
   = [(0, 1)]"
  by (simp add: tracker_defs summarize_defs answer_def raw_item_def sample_tech_def Let_def)

subsection \<open>A fetch that fails\<close>

lemma failed_fetch_is_zero:
  "isl (fetch_try nvd tech) \<Longrightarrow> fetchCvesForTechnology nvd tech = zero_result"
  by (cases "fetch_try nvd tech") (simp_all add: fetchCvesForTechnology_def)

lemma checkSingle_failed_fetch:
  assumes "isl (fetch_try nvd tech)" and "faults d = []"
  shows "checkSingleTechnology nvd clock tech updateTechnology d
         = (Inr (find (\<lambda>t. tech_id t = tech_id tech)
                   (map (\<lambda>t. if tech_id t = tech_id tech then settled (clock tech) t else t)
                      (rows d))),
            d\<lparr>rows := map (\<lambda>t. if tech_id t = tech_id tech then settled (clock tech) t else t)
                         (rows d)\<rparr>)"
proof -
  have m: "(\<lambda>t. if tech_id t = i then apply_updates (result_updates zero_result now) t else t)
             \<circ> (\<lambda>t. if tech_id t = i
                     then apply_updates (no_updates\<lparr>status_u := Some Checking\<rparr>) t else t)
           = (\<lambda>t. if tech_id t = i then settled now t else t)" for i now
    by (rule ext)
      (simp add: apply_updates_def result_updates_def zero_result_def no_updates_def
        settled_def determineSecurityStatus_def)
  show ?thesis
    using assms(2)
    by (simp add: checkSingleTechnology_def updateTechnology_def db_statement_def
        failed_fetch_is_zero [OF assms(1)] Let_def m)
qed

lemma check_loop_failed_fetch:
  assumes "\<And>tech. isl (fetch_try nvd tech)"
  shows "faults d = [] \<Longrightarrow>
         (\<forall>t\<in>set (rows d). tech_id t \<in> S \<longrightarrow> tech_status t = Secure) \<Longrightarrow>
         fst (check_loop nvd clock updateTechnology techs d) = Inr ()
         \<and> faults (snd (check_loop nvd clock updateTechnology techs d)) = []
         \<and> map tech_id (rows (snd (check_loop nvd clock updateTechnology techs d)))
             = map tech_id (rows d)
         \<and> (\<forall>t\<in>set (rows (snd (check_loop nvd clock updateTechnology techs d))).
               tech_id t \<in> S \<union> tech_id ` set techs \<longrightarrow> tech_status t = Secure)"
proof (induction techs arbitrary: d S)
  case Nil
  then show ?case by simp
next
  case (Cons tech rest)
  let ?f = "\<lambda>t. if tech_id t = tech_id tech then settled (clock tech) t else t"
  let ?d1 = "d\<lparr>rows := map ?f (rows d)\<rparr>"
  have c: "checkSingleTechnology nvd clock tech updateTechnology d
           = (Inr (find (\<lambda>t. tech_id t = tech_id tech) (map ?f (rows d))), ?d1)"
    by (rule checkSingle_failed_fetch [OF assms Cons.prems(1)])
  have f1: "faults ?d1 = []" using Cons.prems(1) by simp
  have ids: "map tech_id (rows ?d1) = map tech_id (rows d)"
    by (simp add: settled_def)
  have inv1: "\<forall>t\<in>set (rows ?d1). tech_id t \<in> insert (tech_id tech) S \<longrightarrow> tech_status t = Secure"
    using Cons.prems(2) by (auto simp: settled_def)
  have step: "check_loop nvd clock updateTechnology (tech # rest) d
              = check_loop nvd clock updateTechnology rest ?d1"
    using c by simp
  show ?case
    using Cons.IH [OF f1 inv1] ids unfolding step by auto
qed

text \<open>
  With every fetch failing and no database statement rejecting, the bulk check runs to
  its end and leaves every technology of the table secure, for every table.
\<close>

lemma check_all_failed_fetch:
  assumes "\<And>tech. isl (fetch_try nvd tech)" and "faults d = []"
  shows "fst (check_all_job nvd clock d) = Inr ()
         \<and> list_all (\<lambda>t. tech_status t = Secure) (rows (snd (check_all_job nvd clock d)))"
proof -
  have g: "getAllTechnologies d = (Inr (rows d), d)"
    using assms(2) by (simp add: getAllTechnologies_def db_statement_def)
  have j: "check_all_job nvd clock d = check_loop nvd clock updateTechnology (rows d) d"
    using g by (simp add: check_all_job_def checkAllTechnologies_def)
  let ?d' = "snd (check_loop nvd clock updateTechnology (rows d) d)"
  have l: "fst (check_loop nvd clock updateTechnology (rows d) d) = Inr ()
           \<and> map tech_id (rows ?d') = map tech_id (rows d)
           \<and> (\<forall>t\<in>set (rows ?d').
                 tech_id t \<in> {} \<union> tech_id ` set (rows d) \<longrightarrow> tech_status t = Secure)"
    using check_loop_failed_fetch [OF assms(1) assms(2), of "{}" clock "rows d"] by simp
  then have "set (map tech_id (rows ?d')) = set (map tech_id (rows d))" by simp
  then have "tech_id ` set (rows ?d') = tech_id ` set (rows d)" by simp
  then have "\<forall>t\<in>set (rows ?d'). tech_status t = Secure" using l by blast
  then show ?thesis using l j by (simp add: list_all_iff)
qed

text \<open>
  Claim C2. The claim expects every technology to be unknown after a bulk check in
  which every fetch fails. On a table of two technologies, with every request
  rejected and no database fault, the bulk check ends normally and both technologies
  are secure, with zero counts and an empty top list: the fetch turns its failure
  into the zero result, and the status rule maps the zero result to secure.
\<close>

theorem failed_fetch_marks_secure:
  "check_all_job (\<lambda>tech. NetworkError) (\<lambda>t. 1000)
     \<lparr>rows = [sample_tech ''t1'' ''Node.js'', sample_tech ''t2'' ''React''], faults = []\<rparr>
   = (Inr (),
      \<lparr>rows = [(sample_tech ''t1'' ''Node.js'')
                 \<lparr>tech_status := Secure, topCves := Some [], lastCheckedAt := Some 1000\<rparr>,
               (sample_tech ''t2'' ''React'')
                 \<lparr>tech_status := Secure, topCves := Some [], lastCheckedAt := Some 1000\<rparr>],
       faults = []\<rparr>)"
  by (simp add: tracker_defs sample_tech_def)

text \<open>
  Claim C4. The claim expects no error path to leave a technology checking. In the
  single check, when the statement marking the technology succeeds and the write-back
  rejects, the route answers 500 and the technology stays checking: nothing catches
  the rejection. In the bulk check the same happens when the update of the \<open>catch\<close>
  block rejects as well; the loop is left and the next technology is not checked.
\<close>

theorem failed_write_back_leaves_checking:
  "check_technology_route (\<lambda>tech. NetworkError) (\<lambda>t. 1000) ''t1''
     \<lparr>rows = [sample_tech ''t1'' ''Node.js''], faults = [False, False, True]\<rparr>
   = (Error_json 500 ''Failed to check technology'',
      \<lparr>rows = [(sample_tech ''t1'' ''Node.js'')\<lparr>tech_status := Checking\<rparr>], faults = []\<rparr>)
   \<and> check_all_job (\<lambda>tech. NetworkError) (\<lambda>t. 1000)
     \<lparr>rows = [sample_tech ''t1'' ''Node.js'', sample_tech ''t2'' ''React''],
      faults = [False, False, True, True]\<rparr>
   = (Inl IoError,
      \<lparr>rows = [(sample_tech ''t1'' ''Node.js'')\<lparr>tech_status := Checking\<rparr>,
               sample_tech ''t2'' ''React''],
       faults = []\<rparr>)"
  by (simp add: tracker_defs sample_tech_def)

section \<open>Properties of the scan lifecycle\<close>

lemma store_findings_scans: "scans (store_findings fid k fs st) = scans st"
  by (induction fs arbitrary: k st) (simp_all add: createFinding_def Let_def)

text \<open>
  The completion callback writes whatever the status of the scan is: a stored scan
  becomes completed, with the time stamp and the score of the generated findings.
\<close>

lemma completion_writes_any_status:
  assumes "scans st (scan_id scan) = Some current"
  shows "getScan (scan_id scan) (completion scan (Inr fs) fid now st)
         = Some (current\<lparr>scan_status := Completed, completedAt := Some now,
                         overallScore := Some (calculateSecurityScore fs)\<rparr>)"
  using assms
  by (simp add: completion_def updateScan_def getScan_def merge_scan_def store_findings_scans
      Let_def)

text \<open>The cancel route does guard its write: a terminal scan is left as it is.\<close>

lemma cancel_rejected_when_terminal:
  assumes "getScan i (store srv) = Some scan"
    and "scan_status scan = Completed \<or> scan_status scan = Cancelled \<or> scan_status scan = Failed"
  shows "cancel_scan_route i now srv = (Error_json 400 ''Scan cannot be cancelled'', srv)"
  using assms by (auto simp: cancel_scan_route_def)

text \<open>
  Claim C1. The claim expects the cancelled status to win over a completion that
  fires later. In the run above the scan is running after creation and cancelled,
  without a score, after the cancel; when its timer fires the callback stores the
  generated finding and writes the status completed with the score 85.
\<close>

theorem completion_overwrites_cancelled:
  "map_option (\<lambda>scan. (scan_status scan, overallScore scan)) (getScan ''s1'' (store after_create))
     = Some (Running, None)
   \<and> map_option (\<lambda>scan. (scan_status scan, overallScore scan)) (getScan ''s1'' (store after_cancel))
     = Some (Cancelled, None)
   \<and> map_option (\<lambda>scan. (scan_status scan, overallScore scan)) (getScan ''s1'' (store after_timer))
     = Some (Completed, Some 85)
   \<and> length (getFindings ''s1'' (store after_timer)) = 1"
  by (simp add: scan_defs Let_def)

text \<open>
  Claim C3. The claim expects a terminal status never to change. In the same run a
  read after the cancel returns the scan cancelled (a terminal status), and a read
  after the timer has fired returns it completed, with another completion time and
  a score.
\<close>

theorem terminal_status_changes:
  "get_scan_route ''s1'' after_cancel
     = Ok_json \<lparr>scan_id = ''s1'', target = ''example.com'', scan_status = Cancelled,
         configuration = \<lparr>checkTypes = [Ssl_tls], scanDepth = Quick, scan_notes = None\<rparr>,
         initiatedAt = ''10:00:00'', completedAt = Some ''10:00:01'', overallScore = None,
         consultantName = None, clientName = None, projectName = None\<rparr>
   \<and> get_scan_route ''s1'' after_timer
     = Ok_json \<lparr>scan_id = ''s1'', target = ''example.com'', scan_status = Completed,
         configuration = \<lparr>checkTypes = [Ssl_tls], scanDepth = Quick, scan_notes = None\<rparr>,
         initiatedAt = ''10:00:00'', completedAt = Some ''10:00:03'', overallScore = Some 85,
         consultantName = None, clientName = None, projectName = None\<rparr>"
  by (simp add: scan_defs Let_def)

section \<open>Properties of the rate-limited client\<close>

text \<open>
  A caller that enters less than the delay after the last request goes to sleep until
  the delay after that request; the wake-up time is fixed at entry, from the value of
  \<open>lastRequestTime\<close> read then. Any other caller begins its request at once.
\<close>

lemma enter_when_recent:
  assumes "now - lastRequestTime s < RATE_LIMIT_DELAY"
  shows "enter c now s = s\<lparr>sleeping := sleeping s @ [(c, lastRequestTime s + RATE_LIMIT_DELAY)]\<rparr>"
  using assms by (simp add: enter_def Let_def)

lemma enter_when_due:
  assumes "\<not> now - lastRequestTime s < RATE_LIMIT_DELAY"
  shows "enter c now s = issue c now s"
  using assms by (simp add: enter_def Let_def)

text \<open>
  Claim C8. The claim expects any two requests to begin at least the delay apart,
  also with concurrent callers. Caller 1 enters at 10000 ms and begins its request at
  once; callers 2 and 3 enter 1 ms and 2 ms later, both read the same
  \<open>lastRequestTime\<close> and both sleep until 16500 ms; when their timeouts fire, both
  begin their requests at 16500 ms.
\<close>

theorem concurrent_callers_share_a_slot:
  "map_option requests
     (run [Enter 1 10000, Enter 2 10001, Enter 3 10002, Wake 2 16500, Wake 3 16500]
        initial_limiter)
   = Some [(1, 10000), (2, 16500), (3, 16500)]"
  by (simp add: limiter_defs)

end
